theory Spec2Isabelle
  imports
    Main
    "HOL-Library.Multiset"
    "HOL-Library.Log_Nat"
    "HOL-Library.Char_ord"
    "HOL-Library.List_Lexorder"
    "HOL-Library.Product_Lexorder"
begin

section \<open>Matching service: gender preferences\<close>

text \<open>
  The string-literal unions of the interface \<^verbatim>\<open>MatchingRequest\<close>
  (\<^verbatim>\<open>'male' | 'female' | 'other'\<close>, \<^verbatim>\<open>'anyone' | 'men' | 'women'\<close>,
  \<^verbatim>\<open>'video' | 'voice'\<close>, \<^verbatim>\<open>'waiting' | 'matched' | 'cancelled'\<close>) are datatypes.
\<close>

datatype gender = Male | Female | Other

datatype preference = Anyone | Men | Women

datatype call_type = Video | Voice

datatype ticket_status = Waiting | Matched | Cancelled

text \<open>
  \<^verbatim>\<open>wouldAcceptGender(preference, isPremium, targetGender)\<close>: the early return for
  free users, then the switch on the preference. The \<^verbatim>\<open>default\<close> label shares the
  branch of \<^verbatim>\<open>'anyone'\<close>; on the typed union it adds no case.
\<close>

definition wouldAcceptGender :: "preference \<Rightarrow> bool \<Rightarrow> gender \<Rightarrow> bool" where
  "wouldAcceptGender preference isPremium targetGender =
     (if \<not> isPremium then True
      else (case preference of
              Men \<Rightarrow> targetGender = Male
            | Women \<Rightarrow> targetGender = Female
            | Anyone \<Rightarrow> True))"

text \<open>
  The interface \<^verbatim>\<open>MatchingRequest\<close>. The field \<^verbatim>\<open>id\<close> is \<open>doc_id\<close> here
  (\<open>id\<close> is the identity function of HOL); \<^verbatim>\<open>createdAt\<close> is a time stamp in
  milliseconds since the epoch, the resolution of \<^verbatim>\<open>Timestamp.now()\<close> and of
  \<^verbatim>\<open>Timestamp.fromDate\<close>; the optional fields are options.
\<close>

record MatchingRequest =
  doc_id :: string
  userId :: string
  userGender :: gender
  preferredGender :: preference
  isPremium :: bool
  callType :: call_type
  status :: ticket_status
  createdAt :: int
  matchedWith :: "string option"
  callId :: "string option"

text \<open>\<^verbatim>\<open>isCompatibleMatch(existingRequest, newUserGender, newUserPreference, newUserIsPremium)\<close>.\<close>

definition isCompatibleMatch :: "MatchingRequest \<Rightarrow> gender \<Rightarrow> preference \<Rightarrow> bool \<Rightarrow> bool" where
  "isCompatibleMatch existingRequest newUserGender newUserPreference newUserIsPremium =
     (let existingUserAccepts =
            wouldAcceptGender (preferredGender existingRequest) (isPremium existingRequest) newUserGender;
          newUserAccepts =
            wouldAcceptGender newUserPreference newUserIsPremium (userGender existingRequest)
      in existingUserAccepts \<and> newUserAccepts)"

section \<open>Matching service: the document store\<close>

text \<open>
  The fields \<^verbatim>\<open>joinMatch\<close> writes to a document of the collection \<^verbatim>\<open>calls\<close>, with
  the document id (interface \<^verbatim>\<open>CallData\<close>). The field names carry a prefix where the
  interface \<^verbatim>\<open>MatchingRequest\<close> has the same name.
\<close>

datatype call_status = CallWaiting | Connecting | Connected | Ended

record CallData =
  call_id :: string
  callerId :: string
  receiverId :: "string option"
  call_status :: call_status
  call_createdAt :: int
  call_callType :: call_type

text \<open>
  The state the service works on: the two collections it reads and writes, each a list of
  documents carrying their ids, and the field \<^verbatim>\<open>matchingUnsubscribe\<close> of the service
  instance, which is the id of the ticket whose snapshot listener is registered.
\<close>

record world =
  matchingRequests :: "MatchingRequest list"
  calls :: "CallData list"
  matchingUnsubscribe :: "string option"

text \<open>
  What the SDK and the host do during one run of a service method is an input of the
  model: which calls the SDK rejects (with the message of the rejection), the id
  \<^verbatim>\<open>addDoc\<close> generates, the clock (\<^verbatim>\<open>Timestamp.now()\<close>, \<^verbatim>\<open>new Date()\<close>, in
  milliseconds since the epoch), and the local time zone of the host: \<open>LocalTZA t True\<close>
  is the offset of local time from UTC, in milliseconds, at the UTC time \<open>t\<close>, and
  \<open>LocalTZA t False\<close> is the offset by which the local time \<open>t\<close> is read back as a
  UTC time (at a local time that a change of the offset skips or repeats, the offset
  from before the change).
\<close>

datatype sdk_call = GetDocs | AddDoc | UpdateDoc string | DeleteDoc string

record sdk =
  rejects :: "sdk_call \<Rightarrow> string option"
  autoId :: string
  now :: int
  LocalTZA :: "int \<Rightarrow> bool \<Rightarrow> int"

text \<open>
  The query constraints the service uses. \<^verbatim>\<open>orderBy(field, 'asc')\<close> sorts by the
  field and, among documents with equal values of the field, by the document id in
  ascending order of its bytes; \<open>name\<close> gives the id of a document.
\<close>

definition where_eq :: "('d \<Rightarrow> 'v) \<Rightarrow> 'v \<Rightarrow> 'd list \<Rightarrow> 'd list" where
  "where_eq field v docs = filter (\<lambda>d. field d = v) docs"


definition orderBy_asc :: "('d \<Rightarrow> int) \<Rightarrow> ('d \<Rightarrow> string) \<Rightarrow> 'd list \<Rightarrow> 'd list" where
  "orderBy_asc field name docs = sort_key (\<lambda>d. (field d, name d)) docs"

definition limit :: "nat \<Rightarrow> 'd list \<Rightarrow> 'd list" where
  "limit n docs = take n docs"

text \<open>\<^verbatim>\<open>getDocs(query)\<close>: the snapshot of the query's documents, or a rejection.\<close>

definition getDocs :: "sdk \<Rightarrow> 'd list \<Rightarrow> string + 'd list" where
  "getDocs s snapshot = (case rejects s GetDocs of Some msg \<Rightarrow> Inl msg | None \<Rightarrow> Inr snapshot)"

text \<open>
  \<^verbatim>\<open>addDoc(collection(db, 'calls'), fields)\<close> and
  \<^verbatim>\<open>addDoc(collection(db, 'matchingRequests'), fields)\<close>: the fields are stored under
  the id the SDK generates, which is returned.
\<close>

definition addDoc_calls :: "sdk \<Rightarrow> CallData \<Rightarrow> world \<Rightarrow> (string + string) \<times> world" where
  "addDoc_calls s docData w =
     (case rejects s AddDoc of
        Some msg \<Rightarrow> (Inl msg, w)
      | None \<Rightarrow> (Inr (autoId s), w\<lparr>calls := calls w @ [docData\<lparr>call_id := autoId s\<rparr>]\<rparr>))"

definition addDoc_matchingRequests ::
  "sdk \<Rightarrow> MatchingRequest \<Rightarrow> world \<Rightarrow> (string + string) \<times> world" where
  "addDoc_matchingRequests s docData w =
     (case rejects s AddDoc of
        Some msg \<Rightarrow> (Inl msg, w)
      | None \<Rightarrow>
          (Inr (autoId s),
           w\<lparr>matchingRequests := matchingRequests w @ [docData\<lparr>doc_id := autoId s\<rparr>]\<rparr>))"

text \<open>
  \<^verbatim>\<open>updateDoc(doc(db, 'matchingRequests', id), patch)\<close>: rejected when no document has
  the id, otherwise the patch is applied to that document.
\<close>

definition updateDoc :: "sdk \<Rightarrow> string \<Rightarrow> (MatchingRequest \<Rightarrow> MatchingRequest) \<Rightarrow> world
    \<Rightarrow> (string + unit) \<times> world" where
  "updateDoc s ident patch w =
     (case rejects s (UpdateDoc ident) of
        Some msg \<Rightarrow> (Inl msg, w)
      | None \<Rightarrow>
          if ident \<notin> set (map doc_id (matchingRequests w))
          then (Inl ''No document to update'', w)
          else (Inr (),
                w\<lparr>matchingRequests :=
                     map (\<lambda>r. if doc_id r = ident then patch r else r) (matchingRequests w)\<rparr>))"


section \<open>Matching service: the operations\<close>

text \<open>
  The loop of \<^verbatim>\<open>findExistingMatch\<close> over \<^verbatim>\<open>snapshot.docs\<close>: the first request for
  which \<^verbatim>\<open>isCompatibleMatch\<close> holds is returned, \<^verbatim>\<open>null\<close> after the last one.
\<close>

fun findExistingMatch_loop ::
  "MatchingRequest list \<Rightarrow> gender \<Rightarrow> preference \<Rightarrow> bool \<Rightarrow> MatchingRequest option" where
  "findExistingMatch_loop [] newGender newPreference newIsPremium = None"
| "findExistingMatch_loop (request # docs) newGender newPreference newIsPremium =
     (if isCompatibleMatch request newGender newPreference newIsPremium then Some request
      else findExistingMatch_loop docs newGender newPreference newIsPremium)"

text \<open>
  \<^verbatim>\<open>findExistingMatch(userGender, preferredGender, isPremium, callType)\<close>. The
  \<^verbatim>\<open>catch\<close> logs the error and returns \<^verbatim>\<open>null\<close>.
\<close>

definition findExistingMatch ::
  "sdk \<Rightarrow> gender \<Rightarrow> preference \<Rightarrow> bool \<Rightarrow> call_type \<Rightarrow> world \<Rightarrow> MatchingRequest option" where
  "findExistingMatch s newGender newPreference newIsPremium newCallType w =
     (let matchQuery =
            limit 10 (orderBy_asc createdAt doc_id
              (where_eq callType newCallType (where_eq status Waiting (matchingRequests w))))
      in case getDocs s matchQuery of
           Inl err \<Rightarrow> None
         | Inr docs \<Rightarrow> findExistingMatch_loop docs newGender newPreference newIsPremium)"

text \<open>
  \<^verbatim>\<open>joinMatch(matchingRequestId, userId)\<close>: the call document, then the update of the
  ticket. Every error is thrown again with the prefix \<^verbatim>\<open>Failed to join match: \<close>.
\<close>

definition joinMatch :: "sdk \<Rightarrow> string \<Rightarrow> string \<Rightarrow> world \<Rightarrow> (string + unit) \<times> world" where
  "joinMatch s matchingRequestId joinerId w =
     (case addDoc_calls s
             \<lparr>call_id = [], callerId = joinerId, receiverId = Some joinerId,
              call_status = Connecting, call_createdAt = now s, call_callType = Video\<rparr> w of
        (Inl msg, w1) \<Rightarrow> (Inl (''Failed to join match: '' @ msg), w1)
      | (Inr callDocId, w1) \<Rightarrow>
          (case updateDoc s matchingRequestId
                  (\<lambda>r. r\<lparr>status := Matched, matchedWith := Some joinerId,
                          callId := Some callDocId\<rparr>) w1 of
             (Inl msg, w2) \<Rightarrow> (Inl (''Failed to join match: '' @ msg), w2)
           | (Inr u, w2) \<Rightarrow> (Inr (), w2)))"

text \<open>\<^verbatim>\<open>listenForMatch(matchingRequestId, userId)\<close> registers the snapshot listener.\<close>

definition listenForMatch :: "string \<Rightarrow> string \<Rightarrow> world \<Rightarrow> world" where
  "listenForMatch matchingRequestId listenerId w = w\<lparr>matchingUnsubscribe := Some matchingRequestId\<rparr>"

text \<open>
  The expression \<^verbatim>\<open>existingMatch.callId || existingMatch.id\<close>: an absent or empty
  \<^verbatim>\<open>callId\<close> is falsy.
\<close>

definition callId_or_id :: "MatchingRequest \<Rightarrow> string" where
  "callId_or_id existingMatch =
     (case callId existingMatch of
        None \<Rightarrow> doc_id existingMatch
      | Some c \<Rightarrow> if c = [] then doc_id existingMatch else c)"

text \<open>
  \<^verbatim>\<open>startMatching(userId, userGender, preferredGender, isPremium, callType)\<close>. The
  value returned on the join path is read from \<^verbatim>\<open>existingMatch\<close>, the snapshot taken
  by \<^verbatim>\<open>findExistingMatch\<close> before \<^verbatim>\<open>joinMatch\<close> ran. Every error is thrown again
  with the prefix \<^verbatim>\<open>Failed to start matching: \<close>.
\<close>

definition startMatching ::
  "sdk \<Rightarrow> string \<Rightarrow> gender \<Rightarrow> preference \<Rightarrow> bool \<Rightarrow> call_type \<Rightarrow> world
    \<Rightarrow> (string + string) \<times> world" where
  "startMatching s newUserId newGender newPreference newIsPremium newCallType w =
     (case findExistingMatch s newGender newPreference newIsPremium newCallType w of
        Some existingMatch \<Rightarrow>
          (case joinMatch s (doc_id existingMatch) newUserId w of
             (Inl msg, w') \<Rightarrow> (Inl (''Failed to start matching: '' @ msg), w')
           | (Inr u, w') \<Rightarrow> (Inr (callId_or_id existingMatch), w'))
      | None \<Rightarrow>
          (case addDoc_matchingRequests s
                  \<lparr>doc_id = [], userId = newUserId, userGender = newGender,
                   preferredGender = newPreference, isPremium = newIsPremium,
                   callType = newCallType, status = Waiting, createdAt = now s,
                   matchedWith = None, callId = None\<rparr> w of
             (Inl msg, w') \<Rightarrow> (Inl (''Failed to start matching: '' @ msg), w')
           | (Inr matchingDocId, w') \<Rightarrow>
               (Inr matchingDocId, listenForMatch matchingDocId newUserId w')))"

text \<open>
  The time arithmetic of the \<^verbatim>\<open>Date\<close> object on time values in milliseconds: the
  fields of a time value, \<^verbatim>\<open>MakeTime\<close> and \<^verbatim>\<open>MakeDate\<close>, the conversions between
  UTC and local time, and the two methods \<^verbatim>\<open>cleanupOldRequests\<close> calls.
  \<^verbatim>\<open>getMinutes()\<close> reads the minutes of the local time; \<^verbatim>\<open>setMinutes(m)\<close> rebuilds
  the local time with the minutes replaced by \<open>m\<close> (which may be negative) and reads the
  result back as a UTC time.
\<close>

definition Day :: "int \<Rightarrow> int" where
  "Day t = t div 86400000"

definition HourFromTime :: "int \<Rightarrow> int" where
  "HourFromTime t = (t div 3600000) mod 24"

definition MinFromTime :: "int \<Rightarrow> int" where
  "MinFromTime t = (t div 60000) mod 60"

definition SecFromTime :: "int \<Rightarrow> int" where
  "SecFromTime t = (t div 1000) mod 60"

definition msFromTime :: "int \<Rightarrow> int" where
  "msFromTime t = t mod 1000"

definition MakeTime :: "int \<Rightarrow> int \<Rightarrow> int \<Rightarrow> int \<Rightarrow> int" where
  "MakeTime hour minute sec ms = hour * 3600000 + minute * 60000 + sec * 1000 + ms"

definition MakeDate :: "int \<Rightarrow> int \<Rightarrow> int" where
  "MakeDate day time = day * 86400000 + time"

definition LocalTime :: "sdk \<Rightarrow> int \<Rightarrow> int" where
  "LocalTime s t = t + LocalTZA s t True"

definition UTC :: "sdk \<Rightarrow> int \<Rightarrow> int" where
  "UTC s t = t - LocalTZA s t False"

definition getMinutes :: "sdk \<Rightarrow> int \<Rightarrow> int" where
  "getMinutes s date = MinFromTime (LocalTime s date)"

definition setMinutes :: "sdk \<Rightarrow> int \<Rightarrow> int \<Rightarrow> int" where
  "setMinutes s date minute =
     (let t = LocalTime s date
      in UTC s (MakeDate (Day t) (MakeTime (HourFromTime t) minute (SecFromTime t) (msFromTime t))))"


text \<open>
  \<^verbatim>\<open>cleanupOldRequests()\<close>. \<^verbatim>\<open>fiveMinutesAgo\<close> is \<^verbatim>\<open>new Date()\<close> after
  \<^verbatim>\<open>setMinutes(getMinutes() - 5)\<close>. Every \<^verbatim>\<open>deleteDoc\<close> is started by the \<^verbatim>\<open>map\<close>
  before \<^verbatim>\<open>Promise.all\<close> waits, so a rejected delete does not stop the others; the
  \<^verbatim>\<open>catch\<close> logs every error and returns.
\<close>

definition fiveMinutesAgo :: "sdk \<Rightarrow> int" where
  "fiveMinutesAgo s = setMinutes s (now s) (getMinutes s (now s) - 5)"


section \<open>Payment function\<close>

text \<open>
  The errors the handler throws inside its \<^verbatim>\<open>try\<close>, and the text the \<^verbatim>\<open>catch\<close>
  puts into the response (\<^verbatim>\<open>error.message\<close>). \<open>Thrown\<close> is an exception of a
  collaborator (\<^verbatim>\<open>fetch\<close>, \<^verbatim>\<open>req.json()\<close>) with its message; \<open>TypeError\<close> is the
  read of a property of \<^verbatim>\<open>order.product_details\<close> when that is \<^verbatim>\<open>null\<close>.
\<close>

datatype error =
    SecretNotConfigured
  | RazorpayOrderFailed
  | StoreOrderFailed
  | InvalidSignature
  | UpdateOrderFailed
  | InvalidAction
  | TypeError string
  | Thrown string

fun message :: "error \<Rightarrow> string" where
  "message SecretNotConfigured = ''RAZORPAY_SECRET_KEY is not configured''"
| "message RazorpayOrderFailed = ''Failed to create Razorpay order''"
| "message StoreOrderFailed = ''Failed to store order in database''"
| "message InvalidSignature = ''Invalid payment signature''"
| "message UpdateOrderFailed = ''Failed to update order status''"
| "message InvalidAction = ''Invalid action''"
| "message (TypeError property) =
     ''Cannot read properties of null (reading '' @ [CHR 0x27] @ property @ [CHR 0x27] @ '')''"
| "message (Thrown msg) = msg"

definition RAZORPAY_KEY_ID :: string where
  "RAZORPAY_KEY_ID = ''rzp_test_WQBAQbslF30m1w''"

text \<open>
  Numbers. A finite number of the source is a binary64 floating-point value, here the
  rational number it stands for. \<open>double_of x\<close> is the binary64 value nearest to the
  rational \<open>x\<close>, ties going to the even significand, with 53 bits of significand above
  \<open>2 ^ - 1022\<close> and steps of \<open>2 ^ - 1074\<close> below; \<open>None\<close> is an infinity, which
  \<^verbatim>\<open>JSON.stringify\<close> writes as \<^verbatim>\<open>null\<close>. The product \<^verbatim>\<open>a * b\<close> of two numbers is
  the exact product rounded in this way.
\<close>

definition pow2 :: "int \<Rightarrow> rat" where
  "pow2 e = (if 0 \<le> e then 2 ^ nat e else 1 / 2 ^ nat (- e))"

definition floor_log2 :: "rat \<Rightarrow> int" where
  "floor_log2 x = (if 1 \<le> x then bitlen \<lfloor>x\<rfloor> - 1 else - bitlen (\<lceil>1 / x\<rceil> - 1))"

definition round_half_even :: "rat \<Rightarrow> int" where
  "round_half_even x =
     (let n = \<lfloor>x\<rfloor>; r = x - of_int n
      in if r < 1 / 2 then n else if 1 / 2 < r then n + 1 else if even n then n else n + 1)"

definition double_of :: "rat \<Rightarrow> rat option" where
  "double_of x =
     (if x = 0 then Some 0
      else
        let e = max (floor_log2 \<bar>x\<bar>) (- 1022);
            ulp = pow2 (e - 52);
            y = of_int (round_half_even (x / ulp)) * ulp
        in if pow2 1024 \<le> \<bar>y\<bar> then None else Some y)"

definition number_times :: "rat \<Rightarrow> rat \<Rightarrow> rat option" where
  "number_times a b = double_of (a * b)"

text \<open>
  The JSON object of the request, \<^verbatim>\<open>{ action, ...payload }\<close>, with the fields the two
  cases destructure. The amount is a number as \<^verbatim>\<open>req.json()\<close> delivers it, whole or
  not; an absent \<^verbatim>\<open>currency\<close> or \<^verbatim>\<open>product_details\<close> is \<open>None\<close>; the type \<open>'d\<close>
  is the shape of the product details. Strings are sequences of 8-bit characters, on
  which the \<^verbatim>\<open>btoa\<close> of the authorization header is defined.
\<close>

record 'd payload =
  action :: string
  amount :: rat
  currency :: "string option"
  product_type :: string
  product_details :: "'d option"
  user_id :: string
  razorpay_order_id :: string
  razorpay_payment_id :: string
  razorpay_signature :: string

record 'd request =
  http_method :: string
  req_json :: "string + 'd payload"

text \<open>A row of the table \<^verbatim>\<open>orders\<close>, as the handler writes and reads it.\<close>

record 'd order =
  row_user_id :: string
  row_razorpay_order_id :: string
  row_amount :: rat
  row_currency :: string
  row_status :: string
  row_product_type :: string
  row_product_details :: "'d option"
  row_razorpay_payment_id :: "string option"
  row_razorpay_signature :: "string option"

text \<open>The object of \<^verbatim>\<open>.update({ razorpay_payment_id, razorpay_signature, status })\<close>.\<close>

record order_patch =
  patch_razorpay_payment_id :: string
  patch_razorpay_signature :: string
  patch_status :: string

text \<open>
  The body the handler posts to the gateway, the fields it reads from the gateway's
  answer, and the answer of \<^verbatim>\<open>fetch\<close> with its \<^verbatim>\<open>ok\<close> flag.
\<close>

record razorpay_request =
  rq_amount :: "rat option"
  rq_currency :: string
  rq_receipt :: string

record razorpay_order =
  rz_id :: string
  rz_amount :: rat
  rz_currency :: string

record fetch_response =
  ok :: bool
  json :: razorpay_order

text \<open>
  The collaborators of the handler are parameters: the three environment variables, the
  \<^verbatim>\<open>createClient\<close> of the database library (called with the URL and the key; its
  result here is the message of the error it throws, if it throws one), the HMAC of the
  crypto library (key, then message, giving the lowercase hex digest), the gateway
  behind \<^verbatim>\<open>fetch\<close> (called with the credentials of the Basic authorization and the body;
  \<open>Inl\<close> is a thrown network error), the two statements on the table \<^verbatim>\<open>orders\<close> over a
  store of type \<open>'db\<close> (\<open>Inl\<close> is the \<^verbatim>\<open>error\<close> of the result), and \<^verbatim>\<open>Date.now()\<close>.
\<close>

record ('d, 'db) services =
  env_RAZORPAY_SECRET_KEY :: "string option"
  env_SUPABASE_URL :: "string option"
  env_SUPABASE_ANON_KEY :: "string option"
  createClient :: "string \<Rightarrow> string \<Rightarrow> string option"
  createHmac_sha256_hex :: "string \<Rightarrow> string \<Rightarrow> string"
  fetch_razorpay_orders :: "string \<times> string \<Rightarrow> razorpay_request \<Rightarrow> string + fetch_response"
  orders_insert :: "'d order \<Rightarrow> 'db \<Rightarrow> (string + 'd order) \<times> 'db"
  orders_update :: "order_patch \<Rightarrow> string \<Rightarrow> string \<Rightarrow> 'db \<Rightarrow> (string + 'd order) \<times> 'db"
  date_now :: int

text \<open>The bodies of the responses, and the response with its status.\<close>

datatype 'd response_body =
    NoBody
  | OrderCreated (success: bool) (order_id: string) (res_amount: rat) (res_currency: string)
      (key_id: string)
  | PaymentVerified (success: bool) (res_message: string) (res_order: "'d order")
  | Failure (success: bool) (res_error: string)

record 'd response =
  status_code :: nat
  res_body :: "'d response_body"

text \<open>The decimal digits of a number, for the template \<^verbatim>\<open>`receipt_${Date.now()}`\<close>.\<close>

fun decimal :: "nat \<Rightarrow> string" where
  "decimal n = (if n < 10 then [''0123456789'' ! n] else decimal (n div 10) @ [''0123456789'' ! (n mod 10)])"

definition number_toString :: "int \<Rightarrow> string" where
  "number_toString i = (if i < 0 then ''-'' @ decimal (nat (- i)) else decimal (nat i))"

text \<open>The expression \<^verbatim>\<open>currency || 'INR'\<close>: an absent or empty currency is falsy.\<close>

definition currency_or_INR :: "string option \<Rightarrow> string" where
  "currency_or_INR c = (case c of None \<Rightarrow> ''INR'' | Some x \<Rightarrow> if x = [] then ''INR'' else x)"

text \<open>The expression \<^verbatim>\<open>Deno.env.get(name) ?? ''\<close>: an unset variable gives the empty string.\<close>

definition or_empty :: "string option \<Rightarrow> string" where
  "or_empty v = (case v of None \<Rightarrow> [] | Some x \<Rightarrow> x)"

text \<open>The case \<^verbatim>\<open>'create_order'\<close> of the handler.\<close>

definition create_order ::
  "('d, 'db) services \<Rightarrow> string \<Rightarrow> 'd payload \<Rightarrow> 'db \<Rightarrow> (error + 'd response_body) \<times> 'db" where
  "create_order svc RAZORPAY_SECRET_KEY p db =
     (case fetch_razorpay_orders svc (RAZORPAY_KEY_ID, RAZORPAY_SECRET_KEY)
             \<lparr>rq_amount = number_times (amount p) 100, rq_currency = currency_or_INR (currency p),
              rq_receipt = ''receipt_'' @ number_toString (date_now svc)\<rparr> of
        Inl msg \<Rightarrow> (Inl (Thrown msg), db)
      | Inr orderResponse \<Rightarrow>
          if \<not> ok orderResponse then (Inl RazorpayOrderFailed, db)
          else
            let razorpayOrder = json orderResponse in
            (case orders_insert svc
                    \<lparr>row_user_id = user_id p, row_razorpay_order_id = rz_id razorpayOrder,
                     row_amount = amount p, row_currency = currency_or_INR (currency p),
                     row_status = ''created'', row_product_type = product_type p,
                     row_product_details = product_details p,
                     row_razorpay_payment_id = None, row_razorpay_signature = None\<rparr> db of
               (Inl err, db') \<Rightarrow> (Inl StoreOrderFailed, db')
             | (Inr order, db') \<Rightarrow>
                 (Inr (OrderCreated True (rz_id razorpayOrder) (rz_amount razorpayOrder)
                         (rz_currency razorpayOrder) RAZORPAY_KEY_ID), db')))"

text \<open>
  The chain on \<^verbatim>\<open>order.product_type\<close> after a verified payment. Each branch only logs;
  the log line reads a property of \<^verbatim>\<open>order.product_details\<close>, which throws when the
  details are \<^verbatim>\<open>null\<close>. The result is the error thrown, if any.
\<close>

definition process_payment :: "'d order \<Rightarrow> error option" where
  "process_payment order =
     (if row_product_type order = ''coins'' then
        (case row_product_details order of None \<Rightarrow> Some (TypeError ''coins'') | Some d \<Rightarrow> None)
      else if row_product_type order = ''premium'' then
        (case row_product_details order of None \<Rightarrow> Some (TypeError ''duration'') | Some d \<Rightarrow> None)
      else if row_product_type order = ''unlimited_calls'' then
        (case row_product_details order of None \<Rightarrow> Some (TypeError ''duration'') | Some d \<Rightarrow> None)
      else None)"

text \<open>The case \<^verbatim>\<open>'verify_payment'\<close> of the handler.\<close>

definition verify_payment ::
  "('d, 'db) services \<Rightarrow> string \<Rightarrow> 'd payload \<Rightarrow> 'db \<Rightarrow> (error + 'd response_body) \<times> 'db" where
  "verify_payment svc RAZORPAY_SECRET_KEY p db =
     (let body = razorpay_order_id p @ ''|'' @ razorpay_payment_id p;
          expectedSignature = createHmac_sha256_hex svc RAZORPAY_SECRET_KEY body
      in if expectedSignature \<noteq> razorpay_signature p then (Inl InvalidSignature, db)
         else
           (case orders_update svc
                   \<lparr>patch_razorpay_payment_id = razorpay_payment_id p,
                    patch_razorpay_signature = razorpay_signature p,
                    patch_status = ''paid''\<rparr>
                   (razorpay_order_id p) (user_id p) db of
              (Inl err, db') \<Rightarrow> (Inl UpdateOrderFailed, db')
            | (Inr order, db') \<Rightarrow>
                (case process_payment order of
                   Some e \<Rightarrow> (Inl e, db')
                 | None \<Rightarrow>
                     (Inr (PaymentVerified True ''Payment verified successfully'' order), db'))))"

text \<open>
  The \<^verbatim>\<open>try\<close> block of the handler: the check of the secret (an empty string is falsy),
  the creation of the database client, the parse of the request body, the switch on the
  action.
\<close>

definition try_block ::
  "('d, 'db) services \<Rightarrow> 'd request \<Rightarrow> 'db \<Rightarrow> (error + 'd response_body) \<times> 'db" where
  "try_block svc req db =
     (case env_RAZORPAY_SECRET_KEY svc of
        None \<Rightarrow> (Inl SecretNotConfigured, db)
      | Some RAZORPAY_SECRET_KEY \<Rightarrow>
          if RAZORPAY_SECRET_KEY = [] then (Inl SecretNotConfigured, db)
          else
            (case createClient svc (or_empty (env_SUPABASE_URL svc))
                    (or_empty (env_SUPABASE_ANON_KEY svc)) of
               Some msg \<Rightarrow> (Inl (Thrown msg), db)
             | None \<Rightarrow>
                 (case req_json req of
                    Inl msg \<Rightarrow> (Inl (Thrown msg), db)
                  | Inr p \<Rightarrow>
                      if action p = ''create_order'' then
                        create_order svc RAZORPAY_SECRET_KEY p db
                      else if action p = ''verify_payment'' then
                        verify_payment svc RAZORPAY_SECRET_KEY p db
                      else (Inl InvalidAction, db))))"

text \<open>
  The handler given to \<^verbatim>\<open>serve\<close>: the preflight answer, then the \<^verbatim>\<open>try\<close> block,
  whose errors the \<^verbatim>\<open>catch\<close> turns into a response with status 400.
\<close>

definition handler :: "('d, 'db) services \<Rightarrow> 'd request \<Rightarrow> 'db \<Rightarrow> 'd response \<times> 'db" where
  "handler svc req db =
     (if http_method req = ''OPTIONS'' then (\<lparr>status_code = 200, res_body = NoBody\<rparr>, db)
      else
        (case try_block svc req db of
           (Inl e, db') \<Rightarrow> (\<lparr>status_code = 400, res_body = Failure False (message e)\<rparr>, db')
         | (Inr b, db') \<Rightarrow> (\<lparr>status_code = 200, res_body = b\<rparr>, db')))"

section \<open>Example inputs\<close>

text \<open>
  Concrete inputs on which the definitions are run. For the matching service: an SDK that
  rejects nothing, at clock 1000000 on a host whose local time is five and a half hours
  ahead of UTC throughout, and a store with four tickets, of which \<open>t2\<close> is one minute
  old, \<open>t1\<close> and \<open>t3\<close> are older than five minutes, and \<open>t4\<close> is matched.
\<close>

definition example_sdk :: sdk where
  "example_sdk =
     \<lparr>rejects = (\<lambda>c. None), autoId = ''c1'', now = 1000000,
      LocalTZA = (\<lambda>t isUTC. 19800000)\<rparr>"

text \<open>
  A host in the zone of New York at 03:02 local time on 8 March 2026 (07:02 UTC), two
  minutes after local time went from 02:00 to 03:00 (at 07:00 UTC, time value
  1772953200000): the offset is minus five hours before the change and minus four hours
  from it on, and a local time is read back with the offset of minus five hours up to
  03:00 local time (time value 1772938800000 on the local scale).
\<close>

definition example_sdk_zone_change :: sdk where
  "example_sdk_zone_change =
     \<lparr>rejects = (\<lambda>c. None), autoId = ''c1'', now = 1772953320000,
      LocalTZA =
        (\<lambda>t isUTC.
           if isUTC then (if t < 1772953200000 then - 18000000 else - 14400000)
           else (if t < 1772938800000 then - 18000000 else - 14400000))\<rparr>"

definition ticket ::
  "string \<Rightarrow> string \<Rightarrow> gender \<Rightarrow> preference \<Rightarrow> bool \<Rightarrow> call_type \<Rightarrow> ticket_status \<Rightarrow> int
    \<Rightarrow> MatchingRequest" where
  "ticket i u g p prem ct st t =
     \<lparr>doc_id = i, userId = u, userGender = g, preferredGender = p, isPremium = prem,
      callType = ct, status = st, createdAt = t, matchedWith = None, callId = None\<rparr>"

definition example_world :: world where
  "example_world =
     \<lparr>matchingRequests =
        [ticket ''t2'' ''u2'' Female Anyone False Video Waiting 940000,
         ticket ''t3'' ''u3'' Male Anyone False Voice Waiting 500,
         ticket ''t1'' ''u1'' Male Women True Video Waiting 100000,
         ticket ''t4'' ''u4'' Female Anyone False Video Matched 100],
      calls = [], matchingUnsubscribe = None\<rparr>"

text \<open>
  For the payment function: collaborators that stand in for the real ones when the model is
  run. The store is a list of rows in memory; the client is created unless the URL or
  the key is empty; the stand-in for the HMAC joins key and message (it is not SHA-256);
  the gateway accepts every order under the id \<open>order_1\<close>. The theorems below hold for
  every choice of collaborators, not only for these.
\<close>

definition apply_patch :: "order_patch \<Rightarrow> 'd order \<Rightarrow> 'd order" where
  "apply_patch patch r =
     r\<lparr>row_razorpay_payment_id := Some (patch_razorpay_payment_id patch),
       row_razorpay_signature := Some (patch_razorpay_signature patch),
       row_status := patch_status patch\<rparr>"

definition memory_insert :: "'d order \<Rightarrow> 'd order list \<Rightarrow> (string + 'd order) \<times> 'd order list" where
  "memory_insert row db = (Inr row, db @ [row])"

definition memory_update ::
  "order_patch \<Rightarrow> string \<Rightarrow> string \<Rightarrow> 'd order list \<Rightarrow> (string + 'd order) \<times> 'd order list" where
  "memory_update patch oid uid db =
     (case filter (\<lambda>r. row_razorpay_order_id r = oid \<and> row_user_id r = uid) db of
        [r] \<Rightarrow>
          (Inr (apply_patch patch r),
           map (\<lambda>x. if row_razorpay_order_id x = oid \<and> row_user_id x = uid
                     then apply_patch patch x else x) db)
      | _ \<Rightarrow> (Inl ''JSON object requested, multiple (or no) rows returned'', db))"

definition example_services :: "(nat, nat order list) services" where
  "example_services =
     \<lparr>env_RAZORPAY_SECRET_KEY = Some ''secret'',
      env_SUPABASE_URL = Some ''https://project.supabase.co'',
      env_SUPABASE_ANON_KEY = Some ''anon'',
      createClient =
        (\<lambda>supabaseUrl supabaseKey.
           if supabaseUrl = [] then Some ''supabaseUrl is required.''
           else if supabaseKey = [] then Some ''supabaseKey is required.''
           else None),
      createHmac_sha256_hex = (\<lambda>key msg. key @ ''/'' @ msg),
      fetch_razorpay_orders =
        (\<lambda>credentials rq.
           Inr \<lparr>ok = True,
                json = \<lparr>rz_id = ''order_1'',
                         rz_amount = (case rq_amount rq of None \<Rightarrow> 0 | Some a \<Rightarrow> a),
                         rz_currency = rq_currency rq\<rparr>\<rparr>),
      orders_insert = memory_insert,
      orders_update = memory_update,
      date_now = 1700000000000\<rparr>"

definition example_create :: "nat payload" where
  "example_create =
     \<lparr>action = ''create_order'', amount = 1000, currency = Some ''INR'',
      product_type = ''coins'', product_details = Some 100, user_id = ''u1'',
      razorpay_order_id = [], razorpay_payment_id = [], razorpay_signature = []\<rparr>"

definition example_verify :: "string \<Rightarrow> nat payload" where
  "example_verify signature =
     \<lparr>action = ''verify_payment'', amount = 0, currency = None,
      product_type = [], product_details = None, user_id = ''u1'',
      razorpay_order_id = ''order_1'', razorpay_payment_id = ''pay_1'',
      razorpay_signature = signature\<rparr>"

definition example_orders :: "nat order list" where
  "example_orders =
     [\<lparr>row_user_id = ''u1'', row_razorpay_order_id = ''order_1'', row_amount = 1000,
       row_currency = ''INR'', row_status = ''created'', row_product_type = ''coins'',
       row_product_details = Some 100, row_razorpay_payment_id = None,
       row_razorpay_signature = None\<rparr>]"

section \<open>Theorems: gender preferences\<close>

text \<open>
  C4. A ticket that is not premium accepts every target gender, whatever its preference.
\<close>

theorem wouldAcceptGender_free_accepts_all:
  "wouldAcceptGender preference False targetGender"
  by (simp add: wouldAcceptGender_def)

text \<open>
  C5. For a premium ticket: the preference \<open>Men\<close> accepts exactly the target gender
  \<open>Male\<close>, the preference \<open>Women\<close> accepts exactly \<open>Female\<close>, and the preference
  \<open>Anyone\<close> accepts every target gender.
\<close>

theorem wouldAcceptGender_premium:
  "wouldAcceptGender Men True targetGender = (targetGender = Male) \<and>
   wouldAcceptGender Women True targetGender = (targetGender = Female) \<and>
   wouldAcceptGender Anyone True targetGender"
  by (simp add: wouldAcceptGender_def)

text \<open>
  C3. \<open>isCompatibleMatch\<close> accepts a pairing exactly when both directional checks pass:
  the holder of the existing ticket would accept the gender of the new user, and the new
  user would accept the gender of the holder. So the outcome is the same when the two
  users swap roles: ticket \<open>a\<close> met by the user of ticket \<open>b\<close> is accepted exactly when
  ticket \<open>b\<close> met by the user of ticket \<open>a\<close> is.
\<close>

theorem isCompatibleMatch_symmetric:
  "isCompatibleMatch existingRequest newUserGender newUserPreference newUserIsPremium =
     (wouldAcceptGender (preferredGender existingRequest) (isPremium existingRequest)
        newUserGender \<and>
      wouldAcceptGender newUserPreference newUserIsPremium (userGender existingRequest)) \<and>
   isCompatibleMatch a (userGender b) (preferredGender b) (isPremium b) =
     isCompatibleMatch b (userGender a) (preferredGender a) (isPremium a)"
  by (auto simp add: isCompatibleMatch_def)

section \<open>Theorems: finding a match\<close>

lemma findExistingMatch_loop_None:
  "findExistingMatch_loop ds g p prem = None \<longleftrightarrow>
     (\<forall>c \<in> set ds. \<not> isCompatibleMatch c g p prem)"
  by (induction ds) auto

lemma findExistingMatch_loop_Some:
  "findExistingMatch_loop ds g p prem = Some r \<Longrightarrow>
     \<exists>older later. ds = older @ r # later \<and> isCompatibleMatch r g p prem \<and>
       (\<forall>c \<in> set older. \<not> isCompatibleMatch c g p prem)"
proof (induction ds)
  case Nil
  then show ?case by simp
next
  case (Cons d ds)
  show ?case
  proof (cases "isCompatibleMatch d g p prem")
    case True
    with Cons.prems have "d = r" by simp
    with True have "d # ds = [] @ r # ds \<and> isCompatibleMatch r g p prem \<and>
       (\<forall>c \<in> set []. \<not> isCompatibleMatch c g p prem)" by simp
    then show ?thesis by blast
  next
    case False
    with Cons.prems have "findExistingMatch_loop ds g p prem = Some r" by simp
    from Cons.IH [OF this] obtain older later where
      h: "ds = older @ r # later" "isCompatibleMatch r g p prem"
         "\<forall>c \<in> set older. \<not> isCompatibleMatch c g p prem" by blast
    with False have "d # ds = (d # older) @ r # later \<and> isCompatibleMatch r g p prem \<and>
       (\<forall>c \<in> set (d # older). \<not> isCompatibleMatch c g p prem)" by simp
    then show ?thesis by blast
  qed
qed

lemma matchQuery_eq:
  "limit 10 (orderBy_asc createdAt doc_id (where_eq callType ct (where_eq status Waiting ds))) =
   take 10 (sort_key (\<lambda>r. (createdAt r, doc_id r))
     (filter (\<lambda>r. status r = Waiting \<and> callType r = ct) ds))"
  by (simp add: limit_def orderBy_asc_def where_eq_def)

lemma sorted_by_first_key:
  "sorted (map (\<lambda>d. (f d, g d)) xs) \<Longrightarrow> sorted (map f xs)"
  by (induction xs) (auto simp add: less_eq_prod_def)

lemma findExistingMatch_Some_member:
  assumes "findExistingMatch s g p prem ct w = Some r"
  shows "r \<in> set (matchingRequests w) \<and> status r = Waiting \<and> callType r = ct \<and>
         isCompatibleMatch r g p prem"
proof -
  let ?cands = "take 10 (sort_key (\<lambda>r. (createdAt r, doc_id r))
      (filter (\<lambda>r. status r = Waiting \<and> callType r = ct) (matchingRequests w)))"
  from assms have loop: "findExistingMatch_loop ?cands g p prem = Some r"
    by (simp add: findExistingMatch_def matchQuery_eq getDocs_def split: option.splits)
  from findExistingMatch_loop_Some [OF loop] have "r \<in> set ?cands" and c: "isCompatibleMatch r g p prem"
    by auto
  then have "r \<in> set (sort_key (\<lambda>r. (createdAt r, doc_id r))
      (filter (\<lambda>r. status r = Waiting \<and> callType r = ct) (matchingRequests w)))"
    by (blast dest: in_set_takeD)
  with c show ?thesis by simp
qed

text \<open>
  C6. When the query is not rejected, the waiting tickets of the searcher's call type can
  be arranged in ascending order of creation time as \<open>cands @ rest\<close>, where \<open>cands\<close> holds
  at most 10 tickets and \<open>rest\<close> is empty unless \<open>cands\<close> holds exactly 10, such that
  \<open>findExistingMatch\<close> returns the first ticket of \<open>cands\<close> that passes the mutual
  compatibility check, and \<open>None\<close> (\<^verbatim>\<open>null\<close>) when no ticket of \<open>cands\<close> passes it.
\<close>

theorem findExistingMatch_oldest_first_capped:
  assumes "rejects s GetDocs = None"
  shows "\<exists>cands rest.
     mset (cands @ rest) =
       mset (filter (\<lambda>r. status r = Waiting \<and> callType r = ct) (matchingRequests w)) \<and>
     sorted (map createdAt (cands @ rest)) \<and>
     length cands \<le> 10 \<and> (rest = [] \<or> length cands = 10) \<and>
     (case findExistingMatch s g p prem ct w of
        None \<Rightarrow> \<forall>c \<in> set cands. \<not> isCompatibleMatch c g p prem
      | Some r \<Rightarrow>
          \<exists>older later. cands = older @ r # later \<and> isCompatibleMatch r g p prem \<and>
            (\<forall>c \<in> set older. \<not> isCompatibleMatch c g p prem))"
proof -
  define xs where "xs = sort_key (\<lambda>r. (createdAt r, doc_id r))
      (filter (\<lambda>r. status r = Waiting \<and> callType r = ct) (matchingRequests w))"
  define cands where "cands = take 10 xs"
  define rest where "rest = drop 10 xs"
  have split: "cands @ rest = xs" by (simp add: cands_def rest_def)
  have m: "mset (cands @ rest) =
      mset (filter (\<lambda>r. status r = Waiting \<and> callType r = ct) (matchingRequests w))"
    unfolding split by (simp add: xs_def)
  have "sorted (map (\<lambda>r. (createdAt r, doc_id r)) xs)"
    by (simp add: xs_def)
  then have srt: "sorted (map createdAt (cands @ rest))"
    unfolding split by (rule sorted_by_first_key)
  have len: "length cands \<le> 10" by (simp add: cands_def)
  have full: "rest = [] \<or> length cands = 10"
    by (cases "length xs \<le> 10") (simp_all add: cands_def rest_def)
  have res: "findExistingMatch s g p prem ct w = findExistingMatch_loop cands g p prem"
    using assms by (simp add: findExistingMatch_def matchQuery_eq getDocs_def cands_def xs_def)
  have out: "(case findExistingMatch s g p prem ct w of
        None \<Rightarrow> \<forall>c \<in> set cands. \<not> isCompatibleMatch c g p prem
      | Some r \<Rightarrow>
          \<exists>older later. cands = older @ r # later \<and> isCompatibleMatch r g p prem \<and>
            (\<forall>c \<in> set older. \<not> isCompatibleMatch c g p prem))"
  proof (cases "findExistingMatch_loop cands g p prem")
    case None
    moreover from None have "\<forall>c \<in> set cands. \<not> isCompatibleMatch c g p prem"
      by (simp add: findExistingMatch_loop_None)
    ultimately show ?thesis unfolding res by simp
  next
    case (Some r)
    from findExistingMatch_loop_Some [OF Some] show ?thesis unfolding res Some by simp
  qed
  from m srt len full out show ?thesis by blast
qed

lemma example_findExistingMatch_video:
  "findExistingMatch example_sdk Male Anyone False Video example_world =
     Some (ticket ''t2'' ''u2'' Female Anyone False Video Waiting 940000)"
  by (simp add: findExistingMatch_def example_sdk_def example_world_def ticket_def getDocs_def
      limit_def orderBy_asc_def where_eq_def isCompatibleMatch_def wouldAcceptGender_def)

theorem findExistingMatch_oldest_first_capped_witness:
  "rejects example_sdk GetDocs = None \<and>
   findExistingMatch example_sdk Male Anyone False Video example_world =
     Some (ticket ''t2'' ''u2'' Female Anyone False Video Waiting 940000) \<and>
   (\<exists>cands rest.
      mset (cands @ rest) =
        mset (filter (\<lambda>r. status r = Waiting \<and> callType r = Video)
               (matchingRequests example_world)) \<and>
      sorted (map createdAt (cands @ rest)) \<and>
      length cands \<le> 10 \<and> (rest = [] \<or> length cands = 10) \<and>
      (\<exists>older later.
         cands = older @ ticket ''t2'' ''u2'' Female Anyone False Video Waiting 940000 # later \<and>
         isCompatibleMatch (ticket ''t2'' ''u2'' Female Anyone False Video Waiting 940000)
           Male Anyone False \<and>
         (\<forall>c \<in> set older. \<not> isCompatibleMatch c Male Anyone False)))"
proof -
  have h: "rejects example_sdk GetDocs = None" by (simp add: example_sdk_def)
  from findExistingMatch_oldest_first_capped [OF h, where ct = Video and w = example_world
      and g = Male and p = Anyone and prem = False]
  have "\<exists>cands rest.
      mset (cands @ rest) =
        mset (filter (\<lambda>r. status r = Waiting \<and> callType r = Video)
               (matchingRequests example_world)) \<and>
      sorted (map createdAt (cands @ rest)) \<and>
      length cands \<le> 10 \<and> (rest = [] \<or> length cands = 10) \<and>
      (\<exists>older later.
         cands = older @ ticket ''t2'' ''u2'' Female Anyone False Video Waiting 940000 # later \<and>
         isCompatibleMatch (ticket ''t2'' ''u2'' Female Anyone False Video Waiting 940000)
           Male Anyone False \<and>
         (\<forall>c \<in> set older. \<not> isCompatibleMatch c Male Anyone False))"
    unfolding example_findExistingMatch_video by simp
  with h example_findExistingMatch_video show ?thesis by blast
qed

section \<open>Theorems: joining a match\<close>

lemma joinMatch_ok:
  assumes "rejects s AddDoc = None" and "rejects s (UpdateDoc rid) = None"
    and "rid \<in> set (map doc_id (matchingRequests w))"
  shows "joinMatch s rid joinerId w =
    (Inr (),
     w\<lparr>calls := calls w @
           [\<lparr>call_id = autoId s, callerId = joinerId, receiverId = Some joinerId,
             call_status = Connecting, call_createdAt = now s, call_callType = Video\<rparr>],
       matchingRequests :=
         map (\<lambda>r. if doc_id r = rid
                   then r\<lparr>status := Matched, matchedWith := Some joinerId,
                           callId := Some (autoId s)\<rparr>
                   else r) (matchingRequests w)\<rparr>)"
  using assms by (simp add: joinMatch_def addDoc_calls_def updateDoc_def)

text \<open>
  The join path of \<open>startMatching\<close> when the SDK rejects nothing: one call document is
  added under the generated id, the matched ticket gets the status \<open>Matched\<close>, the joiner
  as \<open>matchedWith\<close> and the generated id as \<open>callId\<close>, and the value returned is
  \<^verbatim>\<open>existingMatch.callId || existingMatch.id\<close> of the ticket as it was found.
\<close>

lemma startMatching_join_path:
  assumes found: "findExistingMatch s g p prem ct w = Some existingMatch"
    and "rejects s AddDoc = None" and "rejects s (UpdateDoc (doc_id existingMatch)) = None"
  shows "startMatching s joinerId g p prem ct w =
    (Inr (callId_or_id existingMatch),
     w\<lparr>calls := calls w @
           [\<lparr>call_id = autoId s, callerId = joinerId, receiverId = Some joinerId,
             call_status = Connecting, call_createdAt = now s, call_callType = Video\<rparr>],
       matchingRequests :=
         map (\<lambda>r. if doc_id r = doc_id existingMatch
                   then r\<lparr>status := Matched, matchedWith := Some joinerId,
                           callId := Some (autoId s)\<rparr>
                   else r) (matchingRequests w)\<rparr>)"
proof -
  from findExistingMatch_Some_member [OF found]
  have "doc_id existingMatch \<in> set (map doc_id (matchingRequests w))" by simp
  from joinMatch_ok [OF assms(2,3) this] found show ?thesis
    by (simp add: startMatching_def)
qed

text \<open>
  C7. The claim says that \<open>startMatching\<close> returns the id of the call created on the join
  path. On the example store the user \<open>u9\<close> is matched with the waiting ticket \<open>t2\<close>: the
  call document is created under the id \<open>c1\<close> and the ticket \<open>t2\<close> is updated to
  \<open>Matched\<close> with \<open>matchedWith = u9\<close> and \<open>callId = c1\<close>, as the claim says, but the
  value returned is \<open>t2\<close>, the id of the ticket, and not \<open>c1\<close>: the returned expression
  reads \<^verbatim>\<open>callId\<close> from the ticket as it was before the update.
\<close>

theorem startMatching_join_returns_ticket_id:
  "findExistingMatch example_sdk Male Anyone False Video example_world =
     Some (ticket ''t2'' ''u2'' Female Anyone False Video Waiting 940000) \<and>
   fst (startMatching example_sdk ''u9'' Male Anyone False Video example_world) = Inr ''t2'' \<and>
   map call_id
     (calls (snd (startMatching example_sdk ''u9'' Male Anyone False Video example_world))) =
     [''c1''] \<and>
   map (\<lambda>r. (doc_id r, status r, matchedWith r, callId r))
     (matchingRequests
       (snd (startMatching example_sdk ''u9'' Male Anyone False Video example_world))) =
     [(''t2'', Matched, Some ''u9'', Some ''c1''), (''t3'', Waiting, None, None),
      (''t1'', Waiting, None, None), (''t4'', Matched, None, None)]"
proof -
  have a: "rejects example_sdk AddDoc = None" by (simp add: example_sdk_def)
  have u: "rejects example_sdk
      (UpdateDoc (doc_id (ticket ''t2'' ''u2'' Female Anyone False Video Waiting 940000))) = None"
    by (simp add: example_sdk_def)
  show ?thesis
    unfolding startMatching_join_path [OF example_findExistingMatch_video a u]
    by (simp add: example_findExistingMatch_video)
       (simp add: callId_or_id_def ticket_def example_world_def example_sdk_def)
qed

text \<open>
  C10. Whenever \<open>joinMatch\<close> creates a call document (the SDK does not reject the
  \<^verbatim>\<open>addDoc\<close>), that document is the only one added to the collection and it has the
  joiner's user id as both \<open>callerId\<close> and \<open>receiverId\<close> and the call type \<open>Video\<close>;
  the ticket joined plays no part in it. The same holds for \<open>startMatching\<close> on its join
  path, for every call type \<open>ct\<close> of the search and so of the ticket found.
\<close>

theorem joinMatch_call_record:
  assumes "rejects s AddDoc = None"
  shows "calls (snd (joinMatch s matchingRequestId joinerId w)) =
           calls w @ [\<lparr>call_id = autoId s, callerId = joinerId, receiverId = Some joinerId,
                       call_status = Connecting, call_createdAt = now s,
                       call_callType = Video\<rparr>] \<and>
         (findExistingMatch s g p prem ct w = Some existingMatch \<longrightarrow>
            callType existingMatch = ct \<and>
            calls (snd (startMatching s joinerId g p prem ct w)) =
              calls w @ [\<lparr>call_id = autoId s, callerId = joinerId, receiverId = Some joinerId,
                          call_status = Connecting, call_createdAt = now s,
                          call_callType = Video\<rparr>])"
proof -
  have j: "calls (snd (joinMatch s rid joinerId w)) =
           calls w @ [\<lparr>call_id = autoId s, callerId = joinerId, receiverId = Some joinerId,
                       call_status = Connecting, call_createdAt = now s,
                       call_callType = Video\<rparr>]" for rid
    using assms
    by (simp add: joinMatch_def addDoc_calls_def updateDoc_def split: option.split)
  have "calls (snd (startMatching s joinerId g p prem ct w)) =
        calls (snd (joinMatch s (doc_id existingMatch) joinerId w))"
    if "findExistingMatch s g p prem ct w = Some existingMatch"
    using that by (simp add: startMatching_def split: prod.split sum.split)
  moreover have "callType existingMatch = ct"
    if "findExistingMatch s g p prem ct w = Some existingMatch"
    using findExistingMatch_Some_member [OF that] by simp
  ultimately show ?thesis using j by simp
qed

lemma example_findExistingMatch_voice:
  "findExistingMatch example_sdk Male Anyone False Voice example_world =
     Some (ticket ''t3'' ''u3'' Male Anyone False Voice Waiting 500)"
  by (simp add: findExistingMatch_def example_sdk_def example_world_def ticket_def getDocs_def
      limit_def orderBy_asc_def where_eq_def isCompatibleMatch_def wouldAcceptGender_def)

theorem joinMatch_call_record_witness:
  "rejects example_sdk AddDoc = None \<and>
   findExistingMatch example_sdk Male Anyone False Voice example_world =
     Some (ticket ''t3'' ''u3'' Male Anyone False Voice Waiting 500) \<and>
   calls (snd (startMatching example_sdk ''u9'' Male Anyone False Voice example_world)) =
     [\<lparr>call_id = ''c1'', callerId = ''u9'', receiverId = Some ''u9'',
       call_status = Connecting, call_createdAt = 1000000, call_callType = Video\<rparr>]"
proof -
  have h: "rejects example_sdk AddDoc = None" by (simp add: example_sdk_def)
  from joinMatch_call_record [OF h, where g = Male and p = Anyone and prem = False
      and ct = Voice and w = example_world and joinerId = "''u9''"
      and existingMatch = "ticket ''t3'' ''u3'' Male Anyone False Voice Waiting 500"]
    example_findExistingMatch_voice
  have "calls (snd (startMatching example_sdk ''u9'' Male Anyone False Voice example_world)) =
     calls example_world @
       [\<lparr>call_id = autoId example_sdk, callerId = ''u9'', receiverId = Some ''u9'',
         call_status = Connecting, call_createdAt = now example_sdk, call_callType = Video\<rparr>]"
    by simp
  then have "calls (snd (startMatching example_sdk ''u9'' Male Anyone False Voice example_world)) =
     [\<lparr>call_id = ''c1'', callerId = ''u9'', receiverId = Some ''u9'',
       call_status = Connecting, call_createdAt = 1000000, call_callType = Video\<rparr>]"
    by (simp add: example_world_def example_sdk_def)
  with h example_findExistingMatch_voice show ?thesis by blast
qed

section \<open>Theorems: cleaning up old tickets\<close>




text \<open>
  The fields of a time value put it together again, so \<^verbatim>\<open>setMinutes(getMinutes() - 5)\<close>
  moves the local time back by 300000 milliseconds and reads the result back as a UTC
  time.
\<close>

lemma time_fields:
  "MakeDate (Day t) (MakeTime (HourFromTime t) (MinFromTime t) (SecFromTime t) (msFromTime t)) = t"
proof -
  define a b c d where "a = t div 1000" and "b = t div 60000" and "c = t div 3600000"
    and "d = t div 86400000"
  define r0 r1 r2 r3 where "r0 = t mod 1000" and "r1 = a mod 60" and "r2 = b mod 60"
    and "r3 = c mod 24"
  have b: "b = a div 60" by (simp add: a_def b_def zdiv_zmult2_eq)
  have c: "c = b div 60" by (simp add: b_def c_def zdiv_zmult2_eq)
  have d: "d = c div 24" by (simp add: c_def d_def zdiv_zmult2_eq)
  have e0: "t = a * 1000 + r0" by (simp add: a_def r0_def)
  have e1: "a = b * 60 + r1" by (simp add: b r1_def)
  have e2: "b = c * 60 + r2" by (simp add: c r2_def)
  have e3: "c = d * 24 + r3" by (simp add: d r3_def)
  have "MakeDate (Day t) (MakeTime (HourFromTime t) (MinFromTime t) (SecFromTime t) (msFromTime t)) =
        d * 86400000 + (r3 * 3600000 + r2 * 60000 + r1 * 1000 + r0)"
    by (simp only: MakeDate_def MakeTime_def Day_def HourFromTime_def MinFromTime_def
        SecFromTime_def msFromTime_def a_def b_def c_def d_def r0_def r1_def r2_def r3_def)
  also have "\<dots> = t"
    using e0 e1 e2 e3 by linarith
  finally show ?thesis .
qed

lemma setMinutes_minus_five:
  "setMinutes s date (getMinutes s date - 5) = UTC s (LocalTime s date - 300000)"
proof -
  let ?t = "LocalTime s date"
  have "MakeDate (Day ?t) (MakeTime (HourFromTime ?t) (MinFromTime ?t - 5) (SecFromTime ?t) (msFromTime ?t)) =
        MakeDate (Day ?t) (MakeTime (HourFromTime ?t) (MinFromTime ?t) (SecFromTime ?t) (msFromTime ?t)) - 300000"
    by (simp add: MakeDate_def MakeTime_def algebra_simps)
  then show ?thesis
    by (simp add: setMinutes_def getMinutes_def Let_def time_fields)
qed

lemma fiveMinutesAgo_eq:
  "fiveMinutesAgo s = UTC s (LocalTime s (now s) - 300000)"
  by (simp add: fiveMinutesAgo_def setMinutes_minus_five)





text \<open>
  At a change of the offset the threshold is not the clock minus five minutes. On the host
  of \<open>example_sdk_zone_change\<close>, five minutes before 03:02 local time is 02:57, a local
  time the change skipped; it is read back with the offset from before the change, which
  puts the threshold 55 minutes after the clock.
\<close>

lemma fiveMinutesAgo_zone_change:
  "fiveMinutesAgo example_sdk_zone_change = now example_sdk_zone_change + 3300000"
  by (simp add: fiveMinutesAgo_eq UTC_def LocalTime_def example_sdk_zone_change_def)

section \<open>Theorems: verifying a payment\<close>

lemma verify_payment_reject:
  assumes "razorpay_signature q \<noteq>
     createHmac_sha256_hex svc S (razorpay_order_id q @ ''|'' @ razorpay_payment_id q)"
  shows "verify_payment svc S q db = (Inl InvalidSignature, db)"
  using assms by (auto simp add: verify_payment_def Let_def)

lemma create_order_body:
  "create_order svc S p db = (Inr b, db') \<Longrightarrow> \<exists>i a c k. b = OrderCreated True i a c k"
  by (auto simp add: create_order_def Let_def split: sum.splits if_splits prod.splits)

lemma example_forged:
  "razorpay_signature (example_verify ''forged'') \<noteq>
     createHmac_sha256_hex example_services ''secret''
       (razorpay_order_id (example_verify ''forged'') @ ''|'' @
        razorpay_payment_id (example_verify ''forged''))"
  by (simp add: example_verify_def example_services_def)

lemma example_signed:
  "verify_payment example_services ''secret'' (example_verify ''secret/order_1|pay_1'')
     example_orders =
   (Inr (PaymentVerified True ''Payment verified successfully''
          \<lparr>row_user_id = ''u1'', row_razorpay_order_id = ''order_1'', row_amount = 1000,
           row_currency = ''INR'', row_status = ''paid'', row_product_type = ''coins'',
           row_product_details = Some 100, row_razorpay_payment_id = Some ''pay_1'',
           row_razorpay_signature = Some ''secret/order_1|pay_1''\<rparr>),
    [\<lparr>row_user_id = ''u1'', row_razorpay_order_id = ''order_1'', row_amount = 1000,
      row_currency = ''INR'', row_status = ''paid'', row_product_type = ''coins'',
      row_product_details = Some 100, row_razorpay_payment_id = Some ''pay_1'',
      row_razorpay_signature = Some ''secret/order_1|pay_1''\<rparr>])"
  by (simp add: verify_payment_def example_verify_def example_services_def example_orders_def
      memory_update_def apply_patch_def process_payment_def)

text \<open>
  C1. For every order id, payment id and secret, with \<open>mac\<close> the HMAC (as the crypto
  library computes it) of the order id, \<open>|\<close> and the payment id under the secret:
  \<open>verify_payment\<close> returns a success only if the supplied signature equals \<open>mac\<close>, and
  so does the handler (a response with the body of a verified payment); whenever the
  supplied signature differs from \<open>mac\<close> the request is rejected as an invalid signature.
  In particular, from a request that carries the right signature, every change of the
  signature is rejected, and every change of the order id or of the payment id whose
  recomputed HMAC differs from the signature is rejected.
\<close>

theorem verify_payment_requires_signature:
  "(\<forall>b db'. verify_payment svc S p db = (Inr b, db') \<longrightarrow>
       razorpay_signature p =
         createHmac_sha256_hex svc S (razorpay_order_id p @ ''|'' @ razorpay_payment_id p)) \<and>
   (\<forall>req resp db' b m ord.
       env_RAZORPAY_SECRET_KEY svc = Some S \<and> req_json req = Inr p \<and>
       handler svc req db = (resp, db') \<and> res_body resp = PaymentVerified b m ord \<longrightarrow>
       razorpay_signature p =
         createHmac_sha256_hex svc S (razorpay_order_id p @ ''|'' @ razorpay_payment_id p)) \<and>
   (razorpay_signature p \<noteq>
       createHmac_sha256_hex svc S (razorpay_order_id p @ ''|'' @ razorpay_payment_id p) \<longrightarrow>
     fst (verify_payment svc S p db) = Inl InvalidSignature) \<and>
   (razorpay_signature p =
       createHmac_sha256_hex svc S (razorpay_order_id p @ ''|'' @ razorpay_payment_id p) \<longrightarrow>
     (\<forall>sig'. sig' \<noteq> razorpay_signature p \<longrightarrow>
        fst (verify_payment svc S (p\<lparr>razorpay_signature := sig'\<rparr>) db) = Inl InvalidSignature) \<and>
     (\<forall>O'. createHmac_sha256_hex svc S (O' @ ''|'' @ razorpay_payment_id p) \<noteq>
             createHmac_sha256_hex svc S (razorpay_order_id p @ ''|'' @ razorpay_payment_id p) \<longrightarrow>
        fst (verify_payment svc S (p\<lparr>razorpay_order_id := O'\<rparr>) db) = Inl InvalidSignature) \<and>
     (\<forall>P'. createHmac_sha256_hex svc S (razorpay_order_id p @ ''|'' @ P') \<noteq>
             createHmac_sha256_hex svc S (razorpay_order_id p @ ''|'' @ razorpay_payment_id p) \<longrightarrow>
        fst (verify_payment svc S (p\<lparr>razorpay_payment_id := P'\<rparr>) db) = Inl InvalidSignature))"
proof -
  let ?mac = "createHmac_sha256_hex svc S (razorpay_order_id p @ ''|'' @ razorpay_payment_id p)"
  have accept: "razorpay_signature p = ?mac"
    if "verify_payment svc S p db = (Inr b, db')" for b db'
  proof (rule ccontr)
    assume "razorpay_signature p \<noteq> ?mac"
    from verify_payment_reject [OF this, of db] that show False by simp
  qed
  have served: "razorpay_signature p = ?mac"
    if env: "env_RAZORPAY_SECRET_KEY svc = Some S" and js: "req_json req = Inr p"
      and h: "handler svc req db = (resp, db')" and b: "res_body resp = PaymentVerified b m ord"
    for req resp db' b m ord
  proof -
    from h b have opt: "http_method req \<noteq> ''OPTIONS''"
      by (auto simp add: handler_def)
    obtain r d where t: "try_block svc req db = (r, d)" by (cases "try_block svc req db")
    with h b opt have r: "r = Inr (PaymentVerified b m ord)"
      by (cases r) (auto simp add: handler_def)
    show ?thesis
    proof (cases "action p = ''create_order''")
      case True
      with t r env js have "create_order svc S p db = (Inr (PaymentVerified b m ord), d)"
        by (simp add: try_block_def split: if_splits option.splits)
      from create_order_body [OF this] show ?thesis by simp
    next
      case False
      with t r env js have "verify_payment svc S p db = (Inr (PaymentVerified b m ord), d)"
        by (simp add: try_block_def split: if_splits option.splits)
      then show ?thesis by (rule accept)
    qed
  qed
  have mutated: "fst (verify_payment svc S q db) = Inl InvalidSignature"
    if "razorpay_signature q \<noteq>
          createHmac_sha256_hex svc S (razorpay_order_id q @ ''|'' @ razorpay_payment_id q)" for q
    using verify_payment_reject [OF that] by simp
  show ?thesis
  proof (intro conjI allI impI)
    fix b db' assume "verify_payment svc S p db = (Inr b, db')"
    then show "razorpay_signature p = ?mac" by (rule accept)
  next
    fix req resp db' b m ord
    assume "env_RAZORPAY_SECRET_KEY svc = Some S \<and> req_json req = Inr p \<and>
       handler svc req db = (resp, db') \<and> res_body resp = PaymentVerified b m ord"
    then show "razorpay_signature p = ?mac" using served by blast
  next
    assume "razorpay_signature p \<noteq> ?mac"
    then show "fst (verify_payment svc S p db) = Inl InvalidSignature" by (rule mutated)
  next
    fix sig'
    assume "razorpay_signature p = ?mac" and "sig' \<noteq> razorpay_signature p"
    then show "fst (verify_payment svc S (p\<lparr>razorpay_signature := sig'\<rparr>) db) = Inl InvalidSignature"
      by (intro mutated) simp
  next
    fix O'
    assume "razorpay_signature p = ?mac"
      and "createHmac_sha256_hex svc S (O' @ ''|'' @ razorpay_payment_id p) \<noteq> ?mac"
    then show "fst (verify_payment svc S (p\<lparr>razorpay_order_id := O'\<rparr>) db) = Inl InvalidSignature"
      by (intro mutated) simp
  next
    fix P'
    assume "razorpay_signature p = ?mac"
      and "createHmac_sha256_hex svc S (razorpay_order_id p @ ''|'' @ P') \<noteq> ?mac"
    then show "fst (verify_payment svc S (p\<lparr>razorpay_payment_id := P'\<rparr>) db) = Inl InvalidSignature"
      by (intro mutated) simp
  qed
qed

theorem verify_payment_requires_signature_witness:
  "razorpay_signature (example_verify ''forged'') \<noteq>
     createHmac_sha256_hex example_services ''secret''
       (razorpay_order_id (example_verify ''forged'') @ ''|'' @
        razorpay_payment_id (example_verify ''forged'')) \<and>
   fst (verify_payment example_services ''secret'' (example_verify ''forged'') example_orders) =
     Inl InvalidSignature \<and>
   (\<exists>b db'. verify_payment example_services ''secret''
        (example_verify ''secret/order_1|pay_1'') example_orders = (Inr b, db')) \<and>
   razorpay_signature (example_verify ''secret/order_1|pay_1'') =
     createHmac_sha256_hex example_services ''secret''
       (razorpay_order_id (example_verify ''secret/order_1|pay_1'') @ ''|'' @
        razorpay_payment_id (example_verify ''secret/order_1|pay_1''))"
proof -
  note inst = verify_payment_requires_signature [where svc = example_services
      and S = "''secret''" and db = example_orders]
  from inst [where p = "example_verify ''forged''"]
  have "razorpay_signature (example_verify ''forged'') \<noteq>
     createHmac_sha256_hex example_services ''secret''
       (razorpay_order_id (example_verify ''forged'') @ ''|'' @
        razorpay_payment_id (example_verify ''forged'')) \<longrightarrow>
     fst (verify_payment example_services ''secret'' (example_verify ''forged'') example_orders) =
     Inl InvalidSignature"
    by (elim conjE)
  with example_forged
  have r: "fst (verify_payment example_services ''secret'' (example_verify ''forged'')
      example_orders) = Inl InvalidSignature" by (rule rev_mp)
  from inst [where p = "example_verify ''secret/order_1|pay_1''"]
  have "\<forall>b db'. verify_payment example_services ''secret''
        (example_verify ''secret/order_1|pay_1'') example_orders = (Inr b, db') \<longrightarrow>
     razorpay_signature (example_verify ''secret/order_1|pay_1'') =
     createHmac_sha256_hex example_services ''secret''
       (razorpay_order_id (example_verify ''secret/order_1|pay_1'') @ ''|'' @
        razorpay_payment_id (example_verify ''secret/order_1|pay_1''))"
    by (elim conjE)
  then have a: "razorpay_signature (example_verify ''secret/order_1|pay_1'') =
     createHmac_sha256_hex example_services ''secret''
       (razorpay_order_id (example_verify ''secret/order_1|pay_1'') @ ''|'' @
        razorpay_payment_id (example_verify ''secret/order_1|pay_1''))"
    using example_signed by (elim allE impE)
  have e: "\<exists>b db'. verify_payment example_services ''secret''
        (example_verify ''secret/order_1|pay_1'') example_orders = (Inr b, db')"
    using example_signed by (intro exI)
  from example_forged r e a show ?thesis by (intro conjI)
qed

text \<open>
  C2. When the supplied signature differs from the recomputed HMAC, \<open>verify_payment\<close>
  fails with the error whose message is \<^verbatim>\<open>Invalid payment signature\<close> and returns the
  store as it was, and the handler (secret configured, database client created, request
  parsed, action \<^verbatim>\<open>verify_payment\<close>) answers with status 400 and that message, the
  store unchanged.
  A store that differs after \<open>verify_payment\<close> implies that the signature matched; and
  when it matches, the store afterwards is the one the update to status \<^verbatim>\<open>paid\<close> of
  the order with the given order id and user id produced.
\<close>

theorem verify_payment_mismatch_fails_closed:
  "(razorpay_signature p \<noteq>
       createHmac_sha256_hex svc S (razorpay_order_id p @ ''|'' @ razorpay_payment_id p) \<longrightarrow>
      verify_payment svc S p db = (Inl InvalidSignature, db) \<and>
      message InvalidSignature = ''Invalid payment signature'' \<and>
      (env_RAZORPAY_SECRET_KEY svc = Some S \<and> S \<noteq> [] \<and>
       createClient svc (or_empty (env_SUPABASE_URL svc)) (or_empty (env_SUPABASE_ANON_KEY svc)) =
         None \<and>
       http_method req \<noteq> ''OPTIONS'' \<and> req_json req = Inr p \<and>
       action p = ''verify_payment'' \<longrightarrow>
         handler svc req db =
           (\<lparr>status_code = 400, res_body = Failure False ''Invalid payment signature''\<rparr>, db))) \<and>
   (snd (verify_payment svc S p db) \<noteq> db \<longrightarrow>
      razorpay_signature p =
        createHmac_sha256_hex svc S (razorpay_order_id p @ ''|'' @ razorpay_payment_id p)) \<and>
   (razorpay_signature p =
        createHmac_sha256_hex svc S (razorpay_order_id p @ ''|'' @ razorpay_payment_id p) \<longrightarrow>
      snd (verify_payment svc S p db) =
        snd (orders_update svc
               \<lparr>patch_razorpay_payment_id = razorpay_payment_id p,
                patch_razorpay_signature = razorpay_signature p, patch_status = ''paid''\<rparr>
               (razorpay_order_id p) (user_id p) db))"
proof -
  let ?mac = "createHmac_sha256_hex svc S (razorpay_order_id p @ ''|'' @ razorpay_payment_id p)"
  have closed: "verify_payment svc S p db = (Inl InvalidSignature, db)"
    if "razorpay_signature p \<noteq> ?mac"
    using that by (rule verify_payment_reject)
  have served: "handler svc req db =
      (\<lparr>status_code = 400, res_body = Failure False ''Invalid payment signature''\<rparr>, db)"
    if "razorpay_signature p \<noteq> ?mac" "env_RAZORPAY_SECRET_KEY svc = Some S" "S \<noteq> []"
       "createClient svc (or_empty (env_SUPABASE_URL svc)) (or_empty (env_SUPABASE_ANON_KEY svc)) =
          None"
       "http_method req \<noteq> ''OPTIONS''" "req_json req = Inr p" "action p = ''verify_payment''"
    using that closed by (simp add: handler_def try_block_def)
  have changed: "razorpay_signature p = ?mac" if "snd (verify_payment svc S p db) \<noteq> db"
  proof (rule ccontr)
    assume "razorpay_signature p \<noteq> ?mac"
    from closed [OF this] that show False by simp
  qed
  have paid: "snd (verify_payment svc S p db) =
        snd (orders_update svc
               \<lparr>patch_razorpay_payment_id = razorpay_payment_id p,
                patch_razorpay_signature = razorpay_signature p, patch_status = ''paid''\<rparr>
               (razorpay_order_id p) (user_id p) db)"
    if "razorpay_signature p = ?mac"
    using that
    by (simp add: verify_payment_def Let_def split: prod.split sum.split option.split)
  show ?thesis
  proof (intro conjI impI)
    assume "razorpay_signature p \<noteq> ?mac"
    then show "verify_payment svc S p db = (Inl InvalidSignature, db)" by (rule closed)
  next
    show "message InvalidSignature = ''Invalid payment signature''" by simp
  next
    assume "razorpay_signature p \<noteq> ?mac"
      and "env_RAZORPAY_SECRET_KEY svc = Some S \<and> S \<noteq> [] \<and>
       createClient svc (or_empty (env_SUPABASE_URL svc)) (or_empty (env_SUPABASE_ANON_KEY svc)) =
         None \<and>
       http_method req \<noteq> ''OPTIONS'' \<and> req_json req = Inr p \<and>
       action p = ''verify_payment''"
    then show "handler svc req db =
      (\<lparr>status_code = 400, res_body = Failure False ''Invalid payment signature''\<rparr>, db)"
      using served by blast
  next
    assume "snd (verify_payment svc S p db) \<noteq> db"
    then show "razorpay_signature p = ?mac" by (rule changed)
  next
    assume "razorpay_signature p = ?mac"
    then show "snd (verify_payment svc S p db) =
        snd (orders_update svc
               \<lparr>patch_razorpay_payment_id = razorpay_payment_id p,
                patch_razorpay_signature = razorpay_signature p, patch_status = ''paid''\<rparr>
               (razorpay_order_id p) (user_id p) db)" by (rule paid)
  qed
qed

theorem verify_payment_mismatch_fails_closed_witness:
  "razorpay_signature (example_verify ''forged'') \<noteq>
     createHmac_sha256_hex example_services ''secret''
       (razorpay_order_id (example_verify ''forged'') @ ''|'' @
        razorpay_payment_id (example_verify ''forged'')) \<and>
   handler example_services
     \<lparr>http_method = ''POST'', req_json = Inr (example_verify ''forged'')\<rparr> example_orders =
     (\<lparr>status_code = 400, res_body = Failure False ''Invalid payment signature''\<rparr>,
      example_orders) \<and>
   map row_status example_orders = [''created''] \<and>
   map row_status (snd (verify_payment example_services ''secret''
      (example_verify ''secret/order_1|pay_1'') example_orders)) = [''paid'']"
proof -
  let ?req = "\<lparr>http_method = ''POST'', req_json = Inr (example_verify ''forged'')\<rparr>"
  have env: "env_RAZORPAY_SECRET_KEY example_services = Some ''secret'' \<and> ''secret'' \<noteq> [] \<and>
      createClient example_services (or_empty (env_SUPABASE_URL example_services))
        (or_empty (env_SUPABASE_ANON_KEY example_services)) = None \<and>
      http_method ?req \<noteq> ''OPTIONS'' \<and> req_json ?req = Inr (example_verify ''forged'') \<and>
      action (example_verify ''forged'') = ''verify_payment''"
    by (simp add: example_services_def example_verify_def or_empty_def)
  from verify_payment_mismatch_fails_closed [where svc = example_services and S = "''secret''"
      and p = "example_verify ''forged''" and db = example_orders and req = ?req]
  have "razorpay_signature (example_verify ''forged'') \<noteq>
     createHmac_sha256_hex example_services ''secret''
       (razorpay_order_id (example_verify ''forged'') @ ''|'' @
        razorpay_payment_id (example_verify ''forged'')) \<longrightarrow>
     verify_payment example_services ''secret'' (example_verify ''forged'') example_orders =
       (Inl InvalidSignature, example_orders) \<and>
     message InvalidSignature = ''Invalid payment signature'' \<and>
     (env_RAZORPAY_SECRET_KEY example_services = Some ''secret'' \<and> ''secret'' \<noteq> [] \<and>
      createClient example_services (or_empty (env_SUPABASE_URL example_services))
        (or_empty (env_SUPABASE_ANON_KEY example_services)) = None \<and>
      http_method ?req \<noteq> ''OPTIONS'' \<and> req_json ?req = Inr (example_verify ''forged'') \<and>
      action (example_verify ''forged'') = ''verify_payment'' \<longrightarrow>
      handler example_services ?req example_orders =
        (\<lparr>status_code = 400, res_body = Failure False ''Invalid payment signature''\<rparr>,
         example_orders))"
    by (elim conjE)
  with example_forged
  have "verify_payment example_services ''secret'' (example_verify ''forged'') example_orders =
       (Inl InvalidSignature, example_orders) \<and>
     message InvalidSignature = ''Invalid payment signature'' \<and>
     (env_RAZORPAY_SECRET_KEY example_services = Some ''secret'' \<and> ''secret'' \<noteq> [] \<and>
      createClient example_services (or_empty (env_SUPABASE_URL example_services))
        (or_empty (env_SUPABASE_ANON_KEY example_services)) = None \<and>
      http_method ?req \<noteq> ''OPTIONS'' \<and> req_json ?req = Inr (example_verify ''forged'') \<and>
      action (example_verify ''forged'') = ''verify_payment'' \<longrightarrow>
      handler example_services ?req example_orders =
        (\<lparr>status_code = 400, res_body = Failure False ''Invalid payment signature''\<rparr>,
         example_orders))"
    by (rule rev_mp)
  then have "env_RAZORPAY_SECRET_KEY example_services = Some ''secret'' \<and> ''secret'' \<noteq> [] \<and>
      createClient example_services (or_empty (env_SUPABASE_URL example_services))
        (or_empty (env_SUPABASE_ANON_KEY example_services)) = None \<and>
      http_method ?req \<noteq> ''OPTIONS'' \<and> req_json ?req = Inr (example_verify ''forged'') \<and>
      action (example_verify ''forged'') = ''verify_payment'' \<longrightarrow>
      handler example_services ?req example_orders =
        (\<lparr>status_code = 400, res_body = Failure False ''Invalid payment signature''\<rparr>,
         example_orders)"
    by (elim conjE)
  with env have h: "handler example_services ?req example_orders =
     (\<lparr>status_code = 400, res_body = Failure False ''Invalid payment signature''\<rparr>,
      example_orders)"
    by (rule rev_mp)
  have before: "map row_status example_orders = [''created'']"
    by (simp add: example_orders_def)
  have after: "map row_status (snd (verify_payment example_services ''secret''
      (example_verify ''secret/order_1|pay_1'') example_orders)) = [''paid'']"
    by (simp add: example_signed)
  from example_forged h before after show ?thesis by (intro conjI)
qed

section \<open>Theorems: creating an order\<close>

text \<open>
  A whole number below \<open>2 ^ 53\<close> in magnitude is a binary64 value, so the product of a
  whole amount of at most 90071992547409 with 100 is exact. Beyond that bound, and on
  amounts that are not whole, the product is rounded.
\<close>

lemma round_half_even_of_int: "round_half_even (of_int j) = j"
  by (simp add: round_half_even_def)

lemma pow2_neg_mult:
  assumes "0 \<le> k"
  shows "of_int n / pow2 (- k) = of_int (n * 2 ^ nat k)"
    and "of_int (n * 2 ^ nat k) * pow2 (- k) = of_int n"
  using assms by (simp_all add: pow2_def)

lemma double_of_int_exact:
  assumes "\<bar>n\<bar> < 2 ^ 53"
  shows "double_of (of_int n) = Some (of_int n)"
proof (cases "n = 0")
  case True
  then show ?thesis by (simp add: double_of_def)
next
  case False
  define m where "m = \<bar>n\<bar>"
  define e where "e = bitlen m - 1"
  from False have m: "0 < m" by (simp add: m_def)
  from bitlen_bounds [OF m] have lo: "2 ^ nat e \<le> m" by (simp add: e_def)
  from m have e0: "0 \<le> e" using bitlen_eq_zero_iff [of m] bitlen_nonneg [of m]
    by (simp add: e_def)
  from lo assms have "(2::int) ^ nat e < 2 ^ 53" by (simp add: m_def)
  with power_less_imp_less_exp [of "2::int" "nat e" 53] have "nat e < 53" by simp
  with e0 have e52: "e \<le> 52" by simp
  have fl: "floor_log2 \<bar>rat_of_int n\<bar> = e"
  proof -
    have "\<bar>rat_of_int n\<bar> = of_int m" by (simp add: m_def)
    moreover have "(1::rat) \<le> of_int m" using m by simp
    ultimately show ?thesis by (simp add: floor_log2_def e_def)
  qed
  define k where "k = 52 - e"
  have k: "0 \<le> k" "e - 52 = - k" using e52 by (simp_all add: k_def)
  have mx: "max e (- 1022) = e" using e0 by simp
  have y: "of_int (round_half_even (of_int n / pow2 (e - 52))) * pow2 (e - 52) = rat_of_int n"
    unfolding k(2) pow2_neg_mult(1) [OF k(1)] round_half_even_of_int
    by (rule pow2_neg_mult(2) [OF k(1)])
  have big: "\<not> pow2 1024 \<le> \<bar>rat_of_int n\<bar>"
  proof -
    have "\<bar>rat_of_int n\<bar> < 2 ^ 53"
      using assms by (metis of_int_abs of_int_less_numeral_power_cancel_iff)
    also have "(2::rat) ^ 53 \<le> 2 ^ 1024" by (rule power_increasing) simp_all
    finally show ?thesis by (simp add: pow2_def)
  qed
  from False show ?thesis
    by (simp add: double_of_def fl mx y big Let_def)
qed

lemma number_times_100_exact:
  assumes "\<bar>n\<bar> \<le> 90071992547409"
  shows "number_times (of_int n) 100 = Some (of_int n * 100)"
proof -
  from assms have "\<bar>n * 100\<bar> < 2 ^ 53" by (simp add: abs_mult)
  from double_of_int_exact [OF this] show ?thesis by (simp add: number_times_def)
qed

text \<open>
  Two products that are rounded: a whole amount above the bound, and the amount 19.99
  (as a number, the binary64 value nearest to it), whose product with 100 is the number
  printed as 1998.9999999999998.
\<close>

lemma number_times_rounds_large:
  "number_times 9007199254740989 100 = Some 900719925474098944"
  by code_simp

lemma number_times_rounds_fraction:
  "double_of (1999 / 100) = Some (5626684784446013 / 281474976710656) \<and>
   number_times (5626684784446013 / 281474976710656) 100 =
     Some (8791694975696895 / 4398046511104)"
  by code_simp

text \<open>
  C9. Whenever \<open>create_order\<close> succeeds: the gateway was sent the product of the amount
  and 100 as the number arithmetic computes it (with the currency, \<^verbatim>\<open>INR\<close> when none is
  given) and accepted it, and for a whole amount of at most 90071992547409 in magnitude
  that product is exactly the amount times 100; the row handed to the store's insert,
  which succeeded and produced the resulting store, has the status \<^verbatim>\<open>created\<close>, the
  original amount and the gateway's order id; and the response body has
  \<open>success = True\<close>, the gateway's order id and the fixed key id.
\<close>

theorem create_order_success:
  assumes "create_order svc S p db = (Inr b, db')"
  shows "(\<exists>orderResponse stored.
     fetch_razorpay_orders svc (RAZORPAY_KEY_ID, S)
        \<lparr>rq_amount = number_times (amount p) 100, rq_currency = currency_or_INR (currency p),
         rq_receipt = ''receipt_'' @ number_toString (date_now svc)\<rparr> = Inr orderResponse \<and>
     ok orderResponse \<and>
     orders_insert svc
        \<lparr>row_user_id = user_id p, row_razorpay_order_id = rz_id (json orderResponse),
         row_amount = amount p, row_currency = currency_or_INR (currency p),
         row_status = ''created'', row_product_type = product_type p,
         row_product_details = product_details p,
         row_razorpay_payment_id = None, row_razorpay_signature = None\<rparr> db = (Inr stored, db') \<and>
     b = OrderCreated True (rz_id (json orderResponse)) (rz_amount (json orderResponse))
           (rz_currency (json orderResponse)) RAZORPAY_KEY_ID) \<and>
   (\<forall>n. amount p = of_int n \<and> \<bar>n\<bar> \<le> 90071992547409 \<longrightarrow>
      number_times (amount p) 100 = Some (amount p * 100))"
proof -
  have exact: "number_times (amount p) 100 = Some (amount p * 100)"
    if "amount p = of_int n" "\<bar>n\<bar> \<le> 90071992547409" for n
    using number_times_100_exact [OF that(2)] that(1) by simp
  from assms have gateway: "\<exists>orderResponse stored.
     fetch_razorpay_orders svc (RAZORPAY_KEY_ID, S)
        \<lparr>rq_amount = number_times (amount p) 100, rq_currency = currency_or_INR (currency p),
         rq_receipt = ''receipt_'' @ number_toString (date_now svc)\<rparr> = Inr orderResponse \<and>
     ok orderResponse \<and>
     orders_insert svc
        \<lparr>row_user_id = user_id p, row_razorpay_order_id = rz_id (json orderResponse),
         row_amount = amount p, row_currency = currency_or_INR (currency p),
         row_status = ''created'', row_product_type = product_type p,
         row_product_details = product_details p,
         row_razorpay_payment_id = None, row_razorpay_signature = None\<rparr> db = (Inr stored, db') \<and>
     b = OrderCreated True (rz_id (json orderResponse)) (rz_amount (json orderResponse))
           (rz_currency (json orderResponse)) RAZORPAY_KEY_ID"
    by (auto simp add: create_order_def Let_def split: sum.splits if_splits prod.splits)
  have "\<forall>n. amount p = of_int n \<and> \<bar>n\<bar> \<le> 90071992547409 \<longrightarrow>
      number_times (amount p) 100 = Some (amount p * 100)"
    using exact by blast
  with gateway show ?thesis by (rule conjI)
qed

lemma example_amount:
  "amount example_create = of_int 1000 \<and> \<bar>1000 :: int\<bar> \<le> 90071992547409"
  by (simp add: example_create_def)

lemma example_created:
  "create_order example_services ''secret'' example_create [] =
     (Inr (OrderCreated True ''order_1'' 100000 ''INR'' ''rzp_test_WQBAQbslF30m1w''),
      [\<lparr>row_user_id = ''u1'', row_razorpay_order_id = ''order_1'', row_amount = 1000,
        row_currency = ''INR'', row_status = ''created'', row_product_type = ''coins'',
        row_product_details = Some 100, row_razorpay_payment_id = None,
        row_razorpay_signature = None\<rparr>])"
proof -
  have "number_times (amount example_create) 100 = Some 100000"
    using number_times_100_exact [of 1000] by (simp add: example_create_def)
  then show ?thesis
    by (simp add: create_order_def example_services_def memory_insert_def RAZORPAY_KEY_ID_def)
       (simp add: example_create_def currency_or_INR_def)
qed

theorem create_order_success_witness:
  "create_order example_services ''secret'' example_create [] =
     (Inr (OrderCreated True ''order_1'' 100000 ''INR'' ''rzp_test_WQBAQbslF30m1w''),
      [\<lparr>row_user_id = ''u1'', row_razorpay_order_id = ''order_1'', row_amount = 1000,
        row_currency = ''INR'', row_status = ''created'', row_product_type = ''coins'',
        row_product_details = Some 100, row_razorpay_payment_id = None,
        row_razorpay_signature = None\<rparr>]) \<and>
   amount example_create = of_int 1000 \<and> \<bar>1000 :: int\<bar> \<le> 90071992547409 \<and>
   number_times (amount example_create) 100 = Some (amount example_create * 100) \<and>
   amount example_create * 100 = 100000"
proof -
  from create_order_success [OF example_created]
  have "\<forall>n. amount example_create = of_int n \<and> \<bar>n\<bar> \<le> 90071992547409 \<longrightarrow>
      number_times (amount example_create) 100 = Some (amount example_create * 100)"
    by (rule conjunct2)
  then have "amount example_create = of_int 1000 \<and> \<bar>1000 :: int\<bar> \<le> 90071992547409 \<longrightarrow>
      number_times (amount example_create) 100 = Some (amount example_create * 100)"
    by (rule spec)
  with example_amount
  have sent: "number_times (amount example_create) 100 = Some (amount example_create * 100)"
    by (rule rev_mp)
  have "amount example_create * 100 = 100000"
    by (simp add: example_create_def)
  moreover from example_amount have "amount example_create = of_int 1000"
    and "\<bar>1000 :: int\<bar> \<le> 90071992547409"
    by (rule conjunct1, rule conjunct2)
  ultimately show ?thesis using example_created sent by (intro conjI)
qed

end
